theory Spec2Isabelle
  imports Complex_Main "HOL-Library.Multiset" "HOL-Library.Product_Lexorder"
begin

section \<open>JavaScript numbers\<close>

text \<open>
  A JavaScript \<^verbatim>\<open>number\<close> is modelled by its four kinds of value: \<^verbatim>\<open>NaN\<close>, the two
  infinities and the finite values. Finite values are real numbers and finite arithmetic
  is exact, so the rounding of IEEE doubles and the sign of zero are not part of the
  model: it is exact on integers of magnitude up to \<open>2^53\<close>, which covers every clock
  value with at most fifteen digits. The comparison operators follow the language:
  every comparison with \<^verbatim>\<open>NaN\<close> is false.
\<close>

datatype number = NaN | NegInf | Fin real | PosInf

fun js_neg :: "number \<Rightarrow> number" where
  "js_neg NaN = NaN"
| "js_neg NegInf = PosInf"
| "js_neg (Fin a) = Fin (- a)"
| "js_neg PosInf = NegInf"

fun js_add :: "number \<Rightarrow> number \<Rightarrow> number" where
  "js_add NaN _ = NaN"
| "js_add _ NaN = NaN"
| "js_add (Fin a) (Fin b) = Fin (a + b)"
| "js_add PosInf NegInf = NaN"
| "js_add NegInf PosInf = NaN"
| "js_add PosInf _ = PosInf"
| "js_add _ PosInf = PosInf"
| "js_add NegInf _ = NegInf"
| "js_add _ NegInf = NegInf"

definition js_sub :: "number \<Rightarrow> number \<Rightarrow> number" where
  "js_sub a b = js_add a (js_neg b)"

fun js_mul :: "number \<Rightarrow> number \<Rightarrow> number" where
  "js_mul NaN _ = NaN"
| "js_mul _ NaN = NaN"
| "js_mul (Fin a) (Fin b) = Fin (a * b)"
| "js_mul (Fin a) PosInf = (if a = 0 then NaN else if 0 < a then PosInf else NegInf)"
| "js_mul (Fin a) NegInf = (if a = 0 then NaN else if 0 < a then NegInf else PosInf)"
| "js_mul PosInf (Fin b) = (if b = 0 then NaN else if 0 < b then PosInf else NegInf)"
| "js_mul NegInf (Fin b) = (if b = 0 then NaN else if 0 < b then NegInf else PosInf)"
| "js_mul PosInf PosInf = PosInf"
| "js_mul NegInf NegInf = PosInf"
| "js_mul PosInf NegInf = NegInf"
| "js_mul NegInf PosInf = NegInf"

fun js_lt :: "number \<Rightarrow> number \<Rightarrow> bool" where
  "js_lt NaN _ = False"
| "js_lt _ NaN = False"
| "js_lt (Fin a) (Fin b) = (a < b)"
| "js_lt _ NegInf = False"
| "js_lt NegInf _ = True"
| "js_lt PosInf _ = False"
| "js_lt _ PosInf = True"

fun js_le :: "number \<Rightarrow> number \<Rightarrow> bool" where
  "js_le NaN _ = False"
| "js_le _ NaN = False"
| "js_le (Fin a) (Fin b) = (a \<le> b)"
| "js_le NegInf _ = True"
| "js_le _ PosInf = True"
| "js_le _ NegInf = False"
| "js_le PosInf _ = False"

definition js_gt :: "number \<Rightarrow> number \<Rightarrow> bool" where
  "js_gt a b = js_lt b a"

definition js_ge :: "number \<Rightarrow> number \<Rightarrow> bool" where
  "js_ge a b = js_le b a"

fun Number_isFinite :: "number \<Rightarrow> bool" where
  "Number_isFinite (Fin _) = True"
| "Number_isFinite _ = False"

fun Number_isNaN :: "number \<Rightarrow> bool" where
  "Number_isNaN NaN = True"
| "Number_isNaN _ = False"

text \<open>\<^verbatim>\<open>Math.round\<close>: the nearest integer, a half rounded up.\<close>

fun Math_round :: "number \<Rightarrow> number" where
  "Math_round (Fin a) = Fin (of_int \<lfloor>a + 1 / 2\<rfloor>)"
| "Math_round n = n"

section \<open>Strings: \<^verbatim>\<open>split\<close> and \<^verbatim>\<open>Number.parseInt\<close>\<close>

text \<open>
  \<^verbatim>\<open>s.split(sep)\<close> for a one-character separator: the pieces between the separators,
  never an empty array (the empty string splits into one empty piece).
\<close>

fun split :: "char \<Rightarrow> string \<Rightarrow> string list" where
  "split sep [] = [[]]"
| "split sep (c # cs) =
     (if c = sep then [] # split sep cs
      else (case split sep cs of [] \<Rightarrow> [[c]] | p # ps \<Rightarrow> (c # p) # ps))"

text \<open>
  \<^verbatim>\<open>Number.parseInt(s, 10)\<close> as ECMAScript defines it: leading white space is skipped,
  one sign is read, then the longest run of decimal digits; with no digit the result is
  \<^verbatim>\<open>NaN\<close>, and whatever follows the digits is ignored. Strings are byte strings here,
  so the white space is the ASCII part of the language's list.
\<close>

definition isWhiteSpace :: "char \<Rightarrow> bool" where
  "isWhiteSpace c = (c \<in> set [CHR 0x20, CHR 0x09, CHR 0x0A, CHR 0x0B, CHR 0x0C, CHR 0x0D])"

definition isDigit :: "char \<Rightarrow> bool" where
  "isDigit c = (c \<in> set ''0123456789'')"

definition digitValue :: "char \<Rightarrow> int" where
  "digitValue c = int (of_char c) - 48"

definition digitsValue :: "string \<Rightarrow> int" where
  "digitsValue z = foldl (\<lambda>acc c. 10 * acc + digitValue c) 0 z"

definition Number_parseInt :: "string \<Rightarrow> number" where
  "Number_parseInt s =
     (let t = dropWhile isWhiteSpace s;
          sign = (case t of c # _ \<Rightarrow> if c = CHR ''-'' then - 1 else 1 | [] \<Rightarrow> 1);
          u = (case t of c # r \<Rightarrow> if c = CHR ''-'' \<or> c = CHR ''+'' then r else t | [] \<Rightarrow> t);
          z = takeWhile isDigit u
      in if z = [] then NaN else Fin (of_int (sign * digitsValue z)))"

section \<open>The open-hours evaluator (\<^verbatim>\<open>src/utils/hours.ts\<close>)\<close>

type_synonym HoursDayKey = string

text \<open>
  \<^verbatim>\<open>HoursSchedule\<close> is a partial record from day key to a list of (start, end) pairs of
  clock strings; a row of the store carries it under arbitrary string keys.
\<close>

type_synonym HoursSchedule = "string \<Rightarrow> (string \<times> string) list option"

definition dayKeys :: "HoursDayKey list" where
  "dayKeys = [''sun'', ''mon'', ''tue'', ''wed'', ''thu'', ''fri'', ''sat'']"

definition MINUTES_IN_DAY :: number where
  "MINUTES_IN_DAY = js_mul (Fin 24) (Fin 60)"

text \<open>
  \<^verbatim>\<open>const [hourStr, minuteStr] = time.split(":")\<close>: the first piece, and the second
  piece when there is one (\<^verbatim>\<open>undefined\<close> otherwise, which \<^verbatim>\<open>??\<close> replaces by \<^verbatim>\<open>"0"\<close>).
\<close>

definition hourStr :: "string \<Rightarrow> string" where
  "hourStr time = hd (split CHR '':'' time)"

definition minuteStr :: "string \<Rightarrow> string option" where
  "minuteStr time =
     (let parts = split CHR '':'' time in if 1 < length parts then Some (parts ! 1) else None)"

definition toMinutes :: "string \<Rightarrow> number" where
  "toMinutes time =
     (let hours = Number_parseInt (hourStr time);
          minutes = Number_parseInt (case minuteStr time of None \<Rightarrow> ''0'' | Some m \<Rightarrow> m)
      in js_add (js_mul hours (Fin 60)) minutes)"

definition normalize :: "number \<Rightarrow> number" where
  "normalize minuteMark =
     (if js_lt minuteMark (Fin 0) then js_add minuteMark MINUTES_IN_DAY
      else if js_ge minuteMark MINUTES_IN_DAY then js_sub minuteMark MINUTES_IN_DAY
      else minuteMark)"

definition intervalContains :: "number \<Rightarrow> number \<Rightarrow> number \<Rightarrow> bool" where
  "intervalContains start end' current =
     (if js_le start end' then js_ge current start \<and> js_lt current end'
      else js_ge current start \<or> js_lt current end')"

text \<open>
  The reference date, by the three getters the evaluator reads. \<^verbatim>\<open>getDay\<close> is the index
  of the weekday (Sunday is 0), \<^verbatim>\<open>getHours\<close> and \<^verbatim>\<open>getMinutes\<close> the local time of day.
\<close>

record Date =
  getDay :: nat
  getHours :: nat
  getMinutes :: nat


text \<open>
  \<^verbatim>\<open>dayKeys[dayIndex]\<close>, as the property key that \<^verbatim>\<open>hours[todayKey]\<close> reads: an index
  outside the array gives \<^verbatim>\<open>undefined\<close>, which as a property key is the string
  \<^verbatim>\<open>"undefined"\<close>.
\<close>

definition todayKey :: "Date \<Rightarrow> string" where
  "todayKey referenceDate =
     (let dayIndex = getDay referenceDate
      in if dayIndex < length dayKeys then dayKeys ! dayIndex else ''undefined'')"

definition minutesNow :: "Date \<Rightarrow> number" where
  "minutesNow referenceDate =
     js_add (js_mul (Fin (of_nat (getHours referenceDate))) (Fin 60))
            (Fin (of_nat (getMinutes referenceDate)))"

definition isOpenNow :: "HoursSchedule option \<Rightarrow> Date \<Rightarrow> bool" where
  "isOpenNow hours referenceDate =
     (case hours of
        None \<Rightarrow> False
      | Some h \<Rightarrow>
          (case h (todayKey referenceDate) of
             None \<Rightarrow> False
           | Some todaysHours \<Rightarrow>
               if todaysHours = [] then False
               else list_ex
                      (\<lambda>(start, end').
                          let startMinutes = normalize (toMinutes start);
                              endMinutes = normalize (toMinutes end')
                          in intervalContains startMinutes endMinutes (minutesNow referenceDate))
                      todaysHours))"

section \<open>JSON values\<close>

text \<open>
  The values a row of the store can carry where the handler does not trust the declared
  type: the coordinate fields, which it tests with \<^verbatim>\<open>typeof\<close>, and \<^verbatim>\<open>geom\<close>, declared
  \<^verbatim>\<open>unknown\<close>. An object is its list of properties.
\<close>

datatype jsval =
    JUndefined
  | JNull
  | JBool bool
  | JNum number
  | JStr string
  | JArr "jsval list"
  | JObj "(string \<times> jsval) list"

text \<open>\<^verbatim>\<open>typeof v === "number"\<close>; it holds of \<^verbatim>\<open>NaN\<close> and of the infinities too.\<close>

fun isNumber :: "jsval \<Rightarrow> bool" where
  "isNumber (JNum _) = True"
| "isNumber _ = False"

text \<open>The truth value of \<^verbatim>\<open>v\<close> in a condition.\<close>

fun truthy :: "jsval \<Rightarrow> bool" where
  "truthy JUndefined = False"
| "truthy JNull = False"
| "truthy (JBool b) = b"
| "truthy (JNum n) = (n \<noteq> NaN \<and> n \<noteq> Fin 0)"
| "truthy (JStr s) = (s \<noteq> [])"
| "truthy (JArr _) = True"
| "truthy (JObj _) = True"

text \<open>\<^verbatim>\<open>typeof v === "object"\<close>: objects, arrays and \<^verbatim>\<open>null\<close>.\<close>

fun isObject :: "jsval \<Rightarrow> bool" where
  "isObject JNull = True"
| "isObject (JArr _) = True"
| "isObject (JObj _) = True"
| "isObject _ = False"

text \<open>
  \<^verbatim>\<open>"coordinates" in v\<close> for an object or an array \<^verbatim>\<open>v\<close>; an array has no such property.
\<close>

fun hasProperty :: "string \<Rightarrow> jsval \<Rightarrow> bool" where
  "hasProperty k (JObj kvs) = (map_of kvs k \<noteq> None)"
| "hasProperty k _ = False"

text \<open>
  \<^verbatim>\<open>v.coordinates\<close>. Reading a property of \<^verbatim>\<open>null\<close> or \<^verbatim>\<open>undefined\<close> throws a
  \<^verbatim>\<open>TypeError\<close> (the result \<open>None\<close>); a primitive or an array has no such property and
  gives \<^verbatim>\<open>undefined\<close>.
\<close>

fun getProperty :: "jsval \<Rightarrow> string \<Rightarrow> jsval option" where
  "getProperty JUndefined k = None"
| "getProperty JNull k = None"
| "getProperty (JObj kvs) k = Some (case map_of kvs k of None \<Rightarrow> JUndefined | Some v \<Rightarrow> v)"
| "getProperty _ k = Some JUndefined"

text \<open>\<^verbatim>\<open>v == null\<close>: the value is \<^verbatim>\<open>null\<close> or \<^verbatim>\<open>undefined\<close>.\<close>

fun isNullish :: "jsval \<Rightarrow> bool" where
  "isNullish JUndefined = True"
| "isNullish JNull = True"
| "isNullish _ = False"

section \<open>Rows and location records (\<^verbatim>\<open>src/types/locations.ts\<close>, \<^verbatim>\<open>route.ts\<close>)\<close>

text \<open>
  \<^verbatim>\<open>NearbyLocationRow\<close>, a row of the store's answer. Its fields carry the prefix
  \<open>row_\<close>, since \<^verbatim>\<open>LocationRecord\<close> has fields of the same names. A field that is
  \<^verbatim>\<open>null\<close> or missing is \<open>None\<close>.
\<close>

record NearbyLocationRow =
  row_id :: string
  row_name :: string
  row_category :: string
  row_phone :: "string option"
  row_website :: "string option"
  row_address :: "string option"
  row_notes :: "string option"
  row_meters :: "number option"
  row_capacity :: "number option"
  row_beds_available :: "number option"
  row_hours :: "HoursSchedule option"
  row_accessible :: "bool option"
  row_pets_allowed :: "bool option"
  row_gender_restriction :: "string option"
  row_lgbtq_friendly :: "bool option"
  row_updated_at :: "string option"
  row_last_verified_at :: "string option"
  row_source :: "string option"
  row_latitude :: jsval
  row_longitude :: jsval
  row_lat :: jsval
  row_lng :: jsval
  row_geom :: jsval

text \<open>
  \<^verbatim>\<open>LocationRecord\<close>. The category and the gender restriction are the row's strings (the
  handler casts them unchecked), and the coordinates are whatever
  \<^verbatim>\<open>extractCoordinates\<close> returns.
\<close>

record LocationRecord =
  id' :: string
  name :: string
  category :: string
  phone :: "string option"
  website :: "string option"
  address :: "string option"
  notes' :: "string option"
  meters :: "number option"
  capacity :: "number option"
  beds_available :: "number option"
  hours :: "HoursSchedule option"
  accessible :: "bool option"
  pets_allowed :: "bool option"
  gender_restriction :: "string option"
  lgbtq_friendly :: "bool option"
  updated_at :: "string option"
  last_verified_at :: "string option"
  source :: "string option"
  latitude :: jsval
  longitude :: jsval

section \<open>Distance (\<^verbatim>\<open>src/utils/geo.ts\<close>)\<close>

text \<open>
  \<^verbatim>\<open>distanceInKm\<close> is the haversine formula in floating point. Nothing below depends on
  the number it returns, so the function is a parameter \<open>distanceInKm\<close> of everything
  that calls it: each theorem holds for every function from the four arguments to a
  number, \<^verbatim>\<open>NaN\<close> included.
\<close>

type_synonym DistanceInKm = "number \<Rightarrow> number \<Rightarrow> jsval \<Rightarrow> jsval \<Rightarrow> number"

definition attachDistance ::
  "DistanceInKm \<Rightarrow> LocationRecord \<Rightarrow> number \<Rightarrow> number \<Rightarrow> LocationRecord" where
  "attachDistance distanceInKm record originLat originLng =
     (if isNullish (latitude record) \<or> isNullish (longitude record)
      then record\<lparr>meters := None\<rparr>
      else let km = distanceInKm originLat originLng (latitude record) (longitude record)
           in record\<lparr>meters := Some (Math_round (js_mul km (Fin 1000)))\<rparr>)"

section \<open>The coordinate resolver (\<^verbatim>\<open>extractCoordinates\<close>)\<close>

text \<open>
  \<^verbatim>\<open>Array.isArray(c) && c.length >= 2\<close>, then \<^verbatim>\<open>const [lng, lat] = c; return [lat, lng]\<close>:
  the first two entries, swapped, whatever they are.
\<close>

fun coordinatesPair :: "jsval \<Rightarrow> (jsval \<times> jsval) option" where
  "coordinatesPair (JArr (lng # lat # _)) = Some (lat, lng)"
| "coordinatesPair _ = None"

text \<open>
  \<^verbatim>\<open>JSON.parse\<close> is a parameter: a function from the text to the parsed value, or to
  \<open>None\<close> where it throws a \<^verbatim>\<open>SyntaxError\<close>. The \<^verbatim>\<open>try\<close> block catches that error and
  the \<^verbatim>\<open>TypeError\<close> of reading \<^verbatim>\<open>coordinates\<close> off a parsed \<^verbatim>\<open>null\<close>.
\<close>

type_synonym JSONParse = "string \<Rightarrow> jsval option"

text \<open>
  The third block of \<^verbatim>\<open>extractCoordinates\<close>: the geometry is a structured object with a
  \<^verbatim>\<open>coordinates\<close> property.
\<close>

definition geometryObjectPair :: "jsval \<Rightarrow> (jsval \<times> jsval) option" where
  "geometryObjectPair geom =
     (if truthy geom \<and> isObject geom \<and> hasProperty ''coordinates'' geom
      then (case getProperty geom ''coordinates'' of
              None \<Rightarrow> None
            | Some c \<Rightarrow> coordinatesPair c)
      else None)"

text \<open>
  The fourth block: the geometry is a non-empty text. A text that does not parse, and a
  parsed value that has no usable \<^verbatim>\<open>coordinates\<close>, fall through.
\<close>

definition geometryTextPair :: "JSONParse \<Rightarrow> jsval \<Rightarrow> (jsval \<times> jsval) option" where
  "geometryTextPair JSON_parse geom =
     (case geom of
        JStr t \<Rightarrow>
          if t \<noteq> [] then
            (case JSON_parse t of
               None \<Rightarrow> None
             | Some parsed \<Rightarrow>
                 (case getProperty parsed ''coordinates'' of
                    None \<Rightarrow> None
                  | Some c \<Rightarrow> coordinatesPair c))
          else None
      | _ \<Rightarrow> None)"

definition extractCoordinates :: "JSONParse \<Rightarrow> NearbyLocationRow \<Rightarrow> jsval \<times> jsval" where
  "extractCoordinates JSON_parse row =
     (if isNumber (row_latitude row) \<and> isNumber (row_longitude row)
      then (row_latitude row, row_longitude row)
      else if isNumber (row_lat row) \<and> isNumber (row_lng row)
      then (row_lat row, row_lng row)
      else
        (case geometryObjectPair (row_geom row) of
           Some pair \<Rightarrow> pair
         | None \<Rightarrow>
             (case geometryTextPair JSON_parse (row_geom row) of
                Some pair \<Rightarrow> pair
              | None \<Rightarrow> (JNull, JNull))))"

definition toLocationRecord :: "JSONParse \<Rightarrow> NearbyLocationRow \<Rightarrow> LocationRecord" where
  "toLocationRecord JSON_parse row =
     (let coords = extractCoordinates JSON_parse row
      in \<lparr> id' = row_id row,
           name = row_name row,
           category = row_category row,
           phone = row_phone row,
           website = row_website row,
           address = row_address row,
           notes' = row_notes row,
           meters = row_meters row,
           capacity = row_capacity row,
           beds_available = row_beds_available row,
           hours = row_hours row,
           accessible = row_accessible row,
           pets_allowed = row_pets_allowed row,
           gender_restriction = row_gender_restriction row,
           lgbtq_friendly = row_lgbtq_friendly row,
           updated_at = row_updated_at row,
           last_verified_at = row_last_verified_at row,
           source = row_source row,
           latitude = fst coords,
           longitude = snd coords \<rparr>)"

section \<open>The filter-and-rank pipeline (\<^verbatim>\<open>applyFilters\<close>)\<close>

text \<open>
  The second argument of \<^verbatim>\<open>applyFilters\<close>; the fields carry the prefix \<open>f_\<close>. A filter
  that is \<^verbatim>\<open>null\<close> is \<open>None\<close>.
\<close>

record FilterOptions =
  f_category :: "string option"
  f_openNow :: bool
  f_accessible :: "bool option"
  f_pets :: "bool option"
  f_gender :: "string option"
  f_radiusKm :: number
  f_lat :: number
  f_lng :: number

definition MAX_RESULTS :: nat where
  "MAX_RESULTS = 50"

text \<open>The callback of \<^verbatim>\<open>map\<close>: a record that has a distance keeps it.\<close>

definition fillDistance :: "DistanceInKm \<Rightarrow> FilterOptions \<Rightarrow> LocationRecord \<Rightarrow> LocationRecord" where
  "fillDistance distanceInKm f record =
     (if meters record \<noteq> None then record
      else attachDistance distanceInKm record (f_lat f) (f_lng f))"

text \<open>
  The callback of \<^verbatim>\<open>filter\<close>, rule by rule. A filter string counts when it is not
  \<^verbatim>\<open>null\<close> and not empty. \<^verbatim>\<open>isOpenNow(record.hours)\<close> reads the clock through its default
  argument \<^verbatim>\<open>new Date()\<close>: the reading is the parameter \<open>now\<close>, one reading for the
  records of one call.
\<close>

definition passesFilters :: "Date \<Rightarrow> FilterOptions \<Rightarrow> LocationRecord \<Rightarrow> bool" where
  "passesFilters now f record =
     (if (case f_category f of None \<Rightarrow> False | Some c \<Rightarrow> c \<noteq> [] \<and> category record \<noteq> c)
      then False
      else if f_accessible f \<noteq> None \<and> accessible record \<noteq> f_accessible f then False
      else if f_pets f \<noteq> None \<and> pets_allowed record \<noteq> f_pets f then False
      else if (case f_gender f of
                 None \<Rightarrow> False
               | Some g \<Rightarrow>
                   g \<noteq> [] \<and>
                   (case gender_restriction record of
                      None \<Rightarrow> False
                    | Some r \<Rightarrow> r \<noteq> [] \<and> r \<noteq> g))
      then False
      else if f_openNow f \<and> \<not> isOpenNow (hours record) now then False
      else if (case meters record of
                 None \<Rightarrow> False
               | Some m \<Rightarrow> Number_isFinite m \<and> js_gt m (js_mul (f_radiusKm f) (Fin 1000)))
      then False
      else True)"

text \<open>The comparator of \<^verbatim>\<open>sort\<close>: a record with no distance counts as infinitely far.\<close>

definition compareDistance :: "LocationRecord \<Rightarrow> LocationRecord \<Rightarrow> number" where
  "compareDistance a b =
     (let distanceA = (case meters a of None \<Rightarrow> PosInf | Some m \<Rightarrow> m);
          distanceB = (case meters b of None \<Rightarrow> PosInf | Some m \<Rightarrow> m)
      in js_sub distanceA distanceB)"

text \<open>
  \<^verbatim>\<open>Array.prototype.sort\<close> with a comparator. ECMAScript reads a comparator result of
  \<^verbatim>\<open>NaN\<close> as \<open>0\<close> (\<open>SortCompare\<close>), requires the sort to be stable, and fixes the result
  whenever the comparator is a consistent ordering of the elements: that result is what
  the stable insertion sort below computes. Where the comparator is not consistent (it
  is not when a distance is \<^verbatim>\<open>NaN\<close>) the language leaves the order to the engine, and the
  model is one such engine.
\<close>

definition SortCompare :: "('a \<Rightarrow> 'a \<Rightarrow> number) \<Rightarrow> 'a \<Rightarrow> 'a \<Rightarrow> number" where
  "SortCompare comparefn x y = (let v = comparefn x y in if v = NaN then Fin 0 else v)"

fun insertSorted :: "('a \<Rightarrow> 'a \<Rightarrow> number) \<Rightarrow> 'a \<Rightarrow> 'a list \<Rightarrow> 'a list" where
  "insertSorted comparefn x [] = [x]"
| "insertSorted comparefn x (y # ys) =
     (if js_gt (SortCompare comparefn x y) (Fin 0) then y # insertSorted comparefn x ys
      else x # y # ys)"

definition Array_sort :: "('a \<Rightarrow> 'a \<Rightarrow> number) \<Rightarrow> 'a list \<Rightarrow> 'a list" where
  "Array_sort comparefn xs = foldr (insertSorted comparefn) xs []"

definition applyFilters ::
  "DistanceInKm \<Rightarrow> Date \<Rightarrow> LocationRecord list \<Rightarrow> FilterOptions \<Rightarrow> LocationRecord list" where
  "applyFilters distanceInKm now records f =
     take MAX_RESULTS
       (Array_sort compareDistance
          (filter (passesFilters now f)
             (map (fillDistance distanceInKm f) records)))"

section \<open>The request handler (\<^verbatim>\<open>GET\<close>)\<close>

datatype Payload = ErrorPayload string | ResultsPayload "LocationRecord list"

record Response =
  status :: nat
  payload :: Payload

text \<open>\<^verbatim>\<open>NextResponse.json(body)\<close> answers with status 200 unless a status is given.\<close>

definition buildResponse ::
  "DistanceInKm \<Rightarrow> Date \<Rightarrow> LocationRecord list \<Rightarrow> FilterOptions \<Rightarrow> Response" where
  "buildResponse distanceInKm now records filters =
     (let filtered = applyFilters distanceInKm now records filters
      in \<lparr>status = 200, payload = ResultsPayload filtered\<rparr>)"

text \<open>
  \<^verbatim>\<open>Number.parseFloat\<close> is a parameter, a function from the text to a number; a text
  that does not start with a number gives \<^verbatim>\<open>NaN\<close>.
\<close>

definition parseNumber :: "(string \<Rightarrow> number) \<Rightarrow> string option \<Rightarrow> number option" where
  "parseNumber parseFloat v =
     (case v of
        None \<Rightarrow> None
      | Some s \<Rightarrow> let parsed = parseFloat s in if Number_isNaN parsed then None else Some parsed)"

text \<open>\<^verbatim>\<open>toLowerCase\<close> on the ASCII letters.\<close>

definition toLowerCase :: "string \<Rightarrow> string" where
  "toLowerCase s =
     map (\<lambda>c. if 65 \<le> (of_char c :: nat) \<and> (of_char c :: nat) \<le> 90
               then char_of ((of_char c :: nat) + 32) else c) s"

definition parseBooleanParam :: "string option \<Rightarrow> bool option" where
  "parseBooleanParam v =
     (case v of
        None \<Rightarrow> None
      | Some s \<Rightarrow>
          let normalized = toLowerCase s
          in if normalized \<in> set [''true'', ''1'', ''yes'', ''y''] then Some True
             else if normalized \<in> set [''false'', ''0'', ''no'', ''n''] then Some False
             else None)"

definition DEFAULT_RADIUS_KM :: number where
  "DEFAULT_RADIUS_KM = Fin 5"

text \<open>The arguments of the remote procedure \<^verbatim>\<open>nearby_locations\<close>.\<close>

record RpcArgs =
  rpc_lat :: number
  rpc_lng :: number
  radius_km :: number
  cat :: "string option"
  only_open :: bool
  need_accessible :: "bool option"
  need_pets :: "bool option"
  gender_focus :: "string option"

text \<open>
  What awaiting the call gives: it throws, or it resolves to \<^verbatim>\<open>{ data, error }\<close>, each
  of the two \<^verbatim>\<open>null\<close> or present. A present \<^verbatim>\<open>data\<close> is the list of rows, which counts
  as present in a condition also when it has no row.
\<close>

datatype RpcOutcome =
    RpcThrows
  | RpcResolves "NearbyLocationRow list option" "string option"

text \<open>
  What the handler reads from outside itself: the two library functions, the distance,
  the clock, the client factory of \<^verbatim>\<open>src/lib/supabase.ts\<close> (\<open>None\<close> when no store is
  configured, else the client's \<^verbatim>\<open>rpc\<close>) and the bundled dataset of
  \<^verbatim>\<open>src/data/mock-locations.ts\<close>. Neither of the last two files is among the sources, so
  both are parameters.
\<close>

record Env =
  env_parseFloat :: "string \<Rightarrow> number"
  env_JSON_parse :: JSONParse
  env_distanceInKm :: DistanceInKm
  env_now :: Date
  getSupabaseClient :: "(RpcArgs \<Rightarrow> RpcOutcome) option"
  mockLocations :: "LocationRecord list"

text \<open>What the handler does besides answering, in the order it does it.\<close>

datatype Effect =
    GetSupabaseClient
  | RpcCall RpcArgs
  | ConsoleWarn string
  | ReadMockLocations

text \<open>The request: \<^verbatim>\<open>searchParams.get\<close>, \<open>None\<close> for a parameter that is not in the URL.\<close>

type_synonym Request = "string \<Rightarrow> string option"

definition requiredMessage :: string where
  "requiredMessage =
     ''Query parameters '' @ [CHR 0x27] @ ''lat'' @ [CHR 0x27] @ '' and '' @ [CHR 0x27]
       @ ''lng'' @ [CHR 0x27] @ '' are required.''"

definition filterOptionsOf :: "Env \<Rightarrow> Request \<Rightarrow> number \<Rightarrow> number \<Rightarrow> FilterOptions" where
  "filterOptionsOf env searchParams lat lng =
     (let radiusKm = (case parseNumber (env_parseFloat env) (searchParams ''radius_km'') of
                         None \<Rightarrow> DEFAULT_RADIUS_KM | Some r \<Rightarrow> r);
          category = searchParams ''category'';
          openNowFlag = (case parseBooleanParam (searchParams ''open_now'') of
                            None \<Rightarrow> False | Some b \<Rightarrow> b);
          accessibleFlag = parseBooleanParam (searchParams ''accessible'');
          petsFlag = parseBooleanParam (searchParams ''pets'');
          genderFilter = searchParams ''gender''
      in \<lparr> f_category = category,
           f_openNow = openNowFlag,
           f_accessible = accessibleFlag,
           f_pets = petsFlag,
           f_gender = genderFilter,
           f_radiusKm = radiusKm,
           f_lat = lat,
           f_lng = lng \<rparr>)"

definition rpcArgsOf :: "FilterOptions \<Rightarrow> RpcArgs" where
  "rpcArgsOf f =
     \<lparr> rpc_lat = f_lat f,
       rpc_lng = f_lng f,
       radius_km = f_radiusKm f,
       cat = f_category f,
       only_open = f_openNow f,
       need_accessible = f_accessible f,
       need_pets = f_pets f,
       gender_focus = f_gender f \<rparr>"

text \<open>The last statements of the handler: the bundled records, each with its distance unset.\<close>

definition fallbackResponse :: "Env \<Rightarrow> FilterOptions \<Rightarrow> Response" where
  "fallbackResponse env filterOptions =
     (let fallbackRecords = map (\<lambda>record. record\<lparr>meters := None\<rparr>) (mockLocations env)
      in buildResponse (env_distanceInKm env) (env_now env) fallbackRecords filterOptions)"

definition GET :: "Env \<Rightarrow> Request \<Rightarrow> Response \<times> Effect list" where
  "GET env searchParams =
     (case (parseNumber (env_parseFloat env) (searchParams ''lat''),
            parseNumber (env_parseFloat env) (searchParams ''lng'')) of
        (Some lat, Some lng) \<Rightarrow>
          (let filterOptions = filterOptionsOf env searchParams lat lng
           in case getSupabaseClient env of
                None \<Rightarrow>
                  (fallbackResponse env filterOptions, [GetSupabaseClient, ReadMockLocations])
              | Some rpc \<Rightarrow>
                  (case rpc (rpcArgsOf filterOptions) of
                     RpcThrows \<Rightarrow>
                       (fallbackResponse env filterOptions,
                        [GetSupabaseClient, RpcCall (rpcArgsOf filterOptions),
                         ConsoleWarn ''Supabase RPC nearby_locations threw:'', ReadMockLocations])
                   | RpcResolves data error \<Rightarrow>
                       (case error of
                          Some e \<Rightarrow>
                            (fallbackResponse env filterOptions,
                             [GetSupabaseClient, RpcCall (rpcArgsOf filterOptions),
                              ConsoleWarn ''Supabase RPC nearby_locations error:'',
                              ReadMockLocations])
                        | None \<Rightarrow>
                            (case data of
                               Some rows \<Rightarrow>
                                 (buildResponse (env_distanceInKm env) (env_now env)
                                    (map (toLocationRecord (env_JSON_parse env)) rows)
                                    filterOptions,
                                  [GetSupabaseClient, RpcCall (rpcArgsOf filterOptions)])
                             | None \<Rightarrow>
                                 (fallbackResponse env filterOptions,
                                  [GetSupabaseClient, RpcCall (rpcArgsOf filterOptions),
                                   ReadMockLocations])))))
      | _ \<Rightarrow> (\<lparr>status = 400, payload = ErrorPayload requiredMessage\<rparr>, []))"

section \<open>The notions the theorems are stated with\<close>

text \<open>
  Sorted ascending by distance, every record without a distance after every record with
  one: of two records in the list's order, the later one has no distance, or both have
  one and the earlier distance is at most the later.
\<close>

definition distanceOrdered :: "LocationRecord \<Rightarrow> LocationRecord \<Rightarrow> bool" where
  "distanceOrdered a b =
     (case meters a of
        None \<Rightarrow> meters b = None
      | Some x \<Rightarrow> (case meters b of None \<Rightarrow> True | Some y \<Rightarrow> js_le x y))"

definition ascendingAbsentLast :: "LocationRecord list \<Rightarrow> bool" where
  "ascendingAbsentLast out = sorted_wrt distanceOrdered out"

text \<open>A distance that is absent or a finite number.\<close>

definition finiteOrAbsent :: "number option \<Rightarrow> bool" where
  "finiteOrAbsent d = (case d of None \<Rightarrow> True | Some m \<Rightarrow> Number_isFinite m)"

text \<open>
  The place of a distance in the order the comparator induces on the numbers other than
  \<^verbatim>\<open>NaN\<close>: the class of the value, then the value.
\<close>

fun numberRank :: "number \<Rightarrow> int \<times> real" where
  "numberRank NegInf = (- 1, 0)"
| "numberRank (Fin a) = (0, a)"
| "numberRank PosInf = (1, 0)"
| "numberRank NaN = (2, 0)"

definition distanceRank :: "LocationRecord \<Rightarrow> int \<times> real" where
  "distanceRank r = numberRank (case meters r of None \<Rightarrow> PosInf | Some m \<Rightarrow> m)"


text \<open>An interval both of whose endpoints yield \<^verbatim>\<open>NaN\<close> minutes.\<close>

definition bothNaN :: "string \<times> string \<Rightarrow> bool" where
  "bothNaN iv = (toMinutes (fst iv) = NaN \<and> toMinutes (snd iv) = NaN)"

text \<open>The records that pass the filter, with their distances filled, before the sort.\<close>

definition candidates ::
  "DistanceInKm \<Rightarrow> Date \<Rightarrow> FilterOptions \<Rightarrow> LocationRecord list \<Rightarrow> LocationRecord list" where
  "candidates d now f records = filter (passesFilters now f) (map (fillDistance d f) records)"

text \<open>A record whose distance the comparator orders: any but \<^verbatim>\<open>NaN\<close>.\<close>

definition sortable :: "LocationRecord \<Rightarrow> bool" where
  "sortable r = (meters r \<noteq> Some NaN)"

text \<open>The distance a rank stands for, among the finite and the absent ones.\<close>

fun rankDistance :: "int \<times> real \<Rightarrow> number option" where
  "rankDistance (c, a) = (if c = 0 then Some (Fin a) else None)"

text \<open>A pair of coordinates that is whole: both present, or both absent.\<close>

definition bothOrNeither :: "jsval \<times> jsval \<Rightarrow> bool" where
  "bothOrNeither p = (isNullish (fst p) = isNullish (snd p))"

text \<open>
  A geometry value as the handler's cast \<^verbatim>\<open>{ coordinates?: [number, number] }\<close> takes it
  to be: where it is an object with a \<^verbatim>\<open>coordinates\<close> array of two or more entries, the
  first two entries are numbers. For a geometry given as text, the same of the value the
  text parses to.
\<close>

definition numericCoordinates :: "jsval \<Rightarrow> bool" where
  "numericCoordinates g =
     (case g of
        JObj kvs \<Rightarrow>
          (case map_of kvs ''coordinates'' of
             Some (JArr (a # b # _)) \<Rightarrow> isNumber a \<and> isNumber b
           | _ \<Rightarrow> True)
      | _ \<Rightarrow> True)"

definition geometryAsCast :: "JSONParse \<Rightarrow> jsval \<Rightarrow> bool" where
  "geometryAsCast JSON_parse g =
     (numericCoordinates g
      \<and> (case g of
            JStr t \<Rightarrow> (case JSON_parse t of None \<Rightarrow> True | Some v \<Rightarrow> numericCoordinates v)
          | _ \<Rightarrow> True))"

section \<open>Sample data for the closed instances\<close>

text \<open>
  A record in the shape of the bundled dataset, a set of filter options that filters
  nothing within five kilometres of the origin, a distance function that answers
  1.2 km for every pair of points, and a clock reading of a Monday at noon.
\<close>

definition sampleRecord :: LocationRecord where
  "sampleRecord =
     \<lparr> id' = ''loc-1'',
       name = ''Sample Shelter'',
       category = ''shelter'',
       phone = None,
       website = None,
       address = Some ''1 Main St'',
       notes' = None,
       meters = None,
       capacity = Some (Fin 40),
       beds_available = Some (Fin 0),
       hours = Some [''mon'' \<mapsto> [(''09:00'', ''17:00'')]],
       accessible = Some True,
       pets_allowed = None,
       gender_restriction = None,
       lgbtq_friendly = None,
       updated_at = None,
       last_verified_at = None,
       source = None,
       latitude = JNull,
       longitude = JNull \<rparr>"

definition sampleFilters :: FilterOptions where
  "sampleFilters =
     \<lparr> f_category = None,
       f_openNow = False,
       f_accessible = None,
       f_pets = None,
       f_gender = None,
       f_radiusKm = Fin 5,
       f_lat = Fin 43.6532,
       f_lng = Fin (- 79.3832) \<rparr>"

definition sampleDistance :: DistanceInKm where
  "sampleDistance originLat originLng targetLat targetLng = Fin 1.2"

definition mondayNoon :: Date where
  "mondayNoon = \<lparr>getDay = 1, getHours = 12, getMinutes = 0\<rparr>"

text \<open>
  An environment for the handler: \<^verbatim>\<open>parseFloat\<close> on the two coordinate texts of the
  sample request (any other text gives \<^verbatim>\<open>NaN\<close>), a \<^verbatim>\<open>JSON.parse\<close> that knows one geometry text, no configured store, and a bundled
  dataset of one record. The request asks for the surroundings of the origin with no
  filter.
\<close>

definition sampleParseFloat :: "string \<Rightarrow> number" where
  "sampleParseFloat s =
     (if s = ''43.6532'' then Fin 43.6532
      else if s = ''-79.3832'' then Fin (- 79.3832)
      else NaN)"

definition sampleGeometry :: jsval where
  "sampleGeometry =
     JObj [(''type'', JStr ''Point''),
           (''coordinates'', JArr [JNum (Fin (- 79.3832)), JNum (Fin 43.6532)])]"

definition sampleGeometryText :: string where
  "sampleGeometryText = ''{\"type\":\"Point\",\"coordinates\":[-79.3832,43.6532]}''"

definition sampleJSONParse :: JSONParse where
  "sampleJSONParse s = (if s = sampleGeometryText then Some sampleGeometry else None)"

definition sampleEnv :: Env where
  "sampleEnv =
     \<lparr> env_parseFloat = sampleParseFloat,
       env_JSON_parse = sampleJSONParse,
       env_distanceInKm = sampleDistance,
       env_now = mondayNoon,
       getSupabaseClient = None,
       mockLocations =
         [sampleRecord\<lparr>latitude := JNum (Fin 43.66), longitude := JNum (Fin (- 79.39))\<rparr>] \<rparr>"

definition sampleRequest :: Request where
  "sampleRequest = [''lat'' \<mapsto> ''43.6532'', ''lng'' \<mapsto> ''-79.3832'']"

text \<open>A row of the store with no coordinates in any shape, 800 m from the origin.\<close>

definition sampleRow :: NearbyLocationRow where
  "sampleRow =
     \<lparr> row_id = ''row-1'',
       row_name = ''Sample Shelter'',
       row_category = ''shelter'',
       row_phone = None,
       row_website = None,
       row_address = None,
       row_notes = None,
       row_meters = Some (Fin 800),
       row_capacity = None,
       row_beds_available = None,
       row_hours = None,
       row_accessible = None,
       row_pets_allowed = None,
       row_gender_restriction = None,
       row_lgbtq_friendly = None,
       row_updated_at = None,
       row_last_verified_at = None,
       row_source = None,
       row_latitude = JUndefined,
       row_longitude = JUndefined,
       row_lat = JUndefined,
       row_lng = JUndefined,
       row_geom = JUndefined \<rparr>"

section \<open>The open-hours evaluator: endpoints and containment\<close>

lemmas parse_eval = Number_parseInt_def isWhiteSpace_def isDigit_def digitsValue_def digitValue_def

lemma MINUTES_IN_DAY_eq: "MINUTES_IN_DAY = Fin 1440"
  by (simp add: MINUTES_IN_DAY_def)

lemma js_lt_NaN_right: "js_lt c NaN = False"
  by (cases c) simp_all

lemma js_le_NaN_right: "js_le c NaN = False"
  by (cases c) simp_all


lemma normalize_Fin:
  "normalize (Fin v) = Fin (if v < 0 then v + 1440 else if 1440 \<le> v then v - 1440 else v)"
  by (simp add: normalize_def MINUTES_IN_DAY_eq js_ge_def js_sub_def)

lemma normalize_NaN: "normalize NaN = NaN"
  by (simp add: normalize_def MINUTES_IN_DAY_eq js_ge_def js_sub_def)

lemmas hours_eval = isOpenNow_def todayKey_def dayKeys_def minutesNow_def
  intervalContains_def js_ge_def js_gt_def normalize_Fin normalize_NaN
  toMinutes_def hourStr_def minuteStr_def
  Number_parseInt_def isWhiteSpace_def isDigit_def digitsValue_def digitValue_def

text \<open>\<^verbatim>\<open>split\<close> returns at least one piece, so the hour component always exists.\<close>

lemma split_nonempty: "split sep s \<noteq> []"
  by (induction s) (auto split: list.splits)

text \<open>
  The examples of the specification: an overnight interval, and the half-open boundary
  of a day interval.
\<close>

lemma isOpenNow_examples:
  "isOpenNow (Some [''mon'' \<mapsto> [(''22:00'', ''02:00'')]]) \<lparr>getDay = 1, getHours = 23, getMinutes = 30\<rparr>"
  "isOpenNow (Some [''mon'' \<mapsto> [(''22:00'', ''02:00'')]]) \<lparr>getDay = 1, getHours = 1, getMinutes = 30\<rparr>"
  "\<not> isOpenNow (Some [''mon'' \<mapsto> [(''22:00'', ''02:00'')]]) \<lparr>getDay = 1, getHours = 12, getMinutes = 0\<rparr>"
  "isOpenNow (Some [''mon'' \<mapsto> [(''09:00'', ''17:00'')]]) \<lparr>getDay = 1, getHours = 9, getMinutes = 0\<rparr>"
  "isOpenNow (Some [''mon'' \<mapsto> [(''09:00'', ''17:00'')]]) \<lparr>getDay = 1, getHours = 16, getMinutes = 59\<rparr>"
  "\<not> isOpenNow (Some [''mon'' \<mapsto> [(''09:00'', ''17:00'')]]) \<lparr>getDay = 1, getHours = 17, getMinutes = 0\<rparr>"
  "\<not> isOpenNow (Some [''mon'' \<mapsto> [(''09:00'', ''17:00'')]]) \<lparr>getDay = 2, getHours = 12, getMinutes = 0\<rparr>"
  by (simp_all add: hours_eval)












lemma isOpenNow_Some:
  "S (todayKey T) = Some ivs \<Longrightarrow>
   isOpenNow (Some S) T =
     (\<exists>(s, e) \<in> set ivs.
        intervalContains (normalize (toMinutes s)) (normalize (toMinutes e)) (minutesNow T))"
  by (cases ivs) (auto simp: isOpenNow_def list_ex_iff)



lemma split_no_sep: "sep \<notin> set s \<Longrightarrow> split sep s = [s]"
  by (induction s) auto

lemma intervalContains_NaN_start: "intervalContains NaN b c = js_lt c b"
  by (cases c) (simp_all add: intervalContains_def js_ge_def)

lemma intervalContains_NaN_end: "intervalContains a NaN c = js_ge c a"
  by (cases a; cases c) (simp_all add: intervalContains_def js_ge_def)

lemma toMinutes_no_colon:
  assumes "CHR '':'' \<notin> set time"
  shows "minuteStr time = None" "hourStr time = time"
    "toMinutes time = js_add (js_mul (Number_parseInt time) (Fin 60)) (Fin 0)"
proof -
  have s: "split CHR '':'' time = [time]" using assms by (rule split_no_sep)
  show m: "minuteStr time = None" by (simp add: minuteStr_def s)
  show h: "hourStr time = time" by (simp add: hourStr_def s)
  have z: "Number_parseInt ''0'' = Fin 0"
    by (simp add: parse_eval)
  show "toMinutes time = js_add (js_mul (Number_parseInt time) (Fin 60)) (Fin 0)"
    by (simp add: toMinutes_def m h z)
qed

lemma bothNaN_never:
  "bothNaN (s, e) \<Longrightarrow> \<not> intervalContains (normalize (toMinutes s)) (normalize (toMinutes e)) c"
  by (simp add: bothNaN_def normalize_NaN intervalContains_NaN_start js_lt_NaN_right)

lemma isOpenNow_drop_bothNaN:
  assumes "S (todayKey T) = Some ivs"
  shows "isOpenNow (Some S) T
       = isOpenNow (Some (S(todayKey T \<mapsto> filter (\<lambda>iv. \<not> bothNaN iv) ivs))) T"
proof -
  let ?P = "\<lambda>(s, e). intervalContains (normalize (toMinutes s)) (normalize (toMinutes e)) (minutesNow T)"
  have "\<not> ?P iv" if "bothNaN iv" for iv
    using that bothNaN_never [of "fst iv" "snd iv" "minutesNow T"] by (simp add: case_prod_beta)
  then have "(\<exists>iv \<in> set ivs. ?P iv) = (\<exists>iv \<in> set (filter (\<lambda>iv. \<not> bothNaN iv) ivs). ?P iv)"
    by auto
  then show ?thesis
    using assms isOpenNow_Some [of S T ivs]
      isOpenNow_Some [of "S(todayKey T \<mapsto> filter (\<lambda>iv. \<not> bothNaN iv) ivs)" T
        "filter (\<lambda>iv. \<not> bothNaN iv) ivs"]
    by simp
qed

text \<open>
  Claim C6, as amended. An interval both of whose endpoints yield \<^verbatim>\<open>NaN\<close> minutes
  contains no current minute, and \<open>isOpenNow\<close> never returns true on account of it:
  dropping every such interval from the day's list leaves the answer as it is. An
  interval with one \<^verbatim>\<open>NaN\<close> endpoint is decided by the comparison with the other endpoint
  alone: with a \<^verbatim>\<open>NaN\<close> start it contains the current minute iff \<open>current < end\<close>, with a
  \<^verbatim>\<open>NaN\<close> end iff \<open>current \<ge> start\<close>. A time string with no colon has no minute
  component, and parses as its hour component times 60 plus the default 0.
\<close>

theorem nan_endpoint_matching:
  "(toMinutes s = NaN \<and> toMinutes e = NaN \<longrightarrow>
      \<not> intervalContains (normalize (toMinutes s)) (normalize (toMinutes e)) c)
   \<and> (S (todayKey T) = Some ivs \<longrightarrow>
        isOpenNow (Some S) T
          = isOpenNow (Some (S(todayKey T \<mapsto> filter (\<lambda>iv. \<not> bothNaN iv) ivs))) T)
   \<and> (toMinutes s1 = NaN \<longrightarrow>
        intervalContains (normalize (toMinutes s1)) b c1 = js_lt c1 b)
   \<and> (toMinutes e2 = NaN \<longrightarrow>
        intervalContains a (normalize (toMinutes e2)) c2 = js_ge c2 a)
   \<and> (CHR '':'' \<notin> set time \<longrightarrow>
        minuteStr time = None \<and> hourStr time = time
        \<and> toMinutes time = js_add (js_mul (Number_parseInt time) (Fin 60)) (Fin 0))"
proof -
  have 1: "toMinutes s = NaN \<and> toMinutes e = NaN \<longrightarrow>
      \<not> intervalContains (normalize (toMinutes s)) (normalize (toMinutes e)) c"
    using bothNaN_never [of s e c] by (simp add: bothNaN_def)
  have 2: "S (todayKey T) = Some ivs \<longrightarrow>
        isOpenNow (Some S) T
          = isOpenNow (Some (S(todayKey T \<mapsto> filter (\<lambda>iv. \<not> bothNaN iv) ivs))) T"
    using isOpenNow_drop_bothNaN by blast
  have 3: "toMinutes s1 = NaN \<longrightarrow>
        intervalContains (normalize (toMinutes s1)) b c1 = js_lt c1 b"
    by (simp add: normalize_NaN intervalContains_NaN_start)
  have 4: "toMinutes e2 = NaN \<longrightarrow>
        intervalContains a (normalize (toMinutes e2)) c2 = js_ge c2 a"
    by (simp add: normalize_NaN intervalContains_NaN_end)
  have 5: "CHR '':'' \<notin> set time \<longrightarrow>
        minuteStr time = None \<and> hourStr time = time
        \<and> toMinutes time = js_add (js_mul (Number_parseInt time) (Fin 60)) (Fin 0)"
    using toMinutes_no_colon by blast
  from 1 2 3 4 5 show ?thesis by blast
qed

theorem nan_endpoint_matching_witness:
  "toMinutes ''closed'' = NaN \<and> toMinutes ''n/a'' = NaN
   \<and> \<not> intervalContains (normalize (toMinutes ''closed'')) (normalize (toMinutes ''n/a'')) (Fin 720)
   \<and> [''mon'' \<mapsto> [(''closed'', ''n/a''), (''09:00'', ''17:00'')]] (todayKey mondayNoon)
       = Some [(''closed'', ''n/a''), (''09:00'', ''17:00'')]
   \<and> isOpenNow (Some [''mon'' \<mapsto> [(''closed'', ''n/a''), (''09:00'', ''17:00'')]]) mondayNoon
   \<and> isOpenNow (Some [''mon'' \<mapsto> [(''09:00'', ''17:00'')]]) mondayNoon
   \<and> intervalContains (normalize (toMinutes ''closed'')) (Fin 1020) (Fin 720)
   \<and> \<not> intervalContains (Fin 540) (normalize (toMinutes ''n/a'')) (Fin 480)
   \<and> CHR '':'' \<notin> set ''9''
   \<and> toMinutes ''9'' = Fin 540"
  using nan_endpoint_matching [of "''closed''" "''n/a''" "Fin 720"
      "[''mon'' \<mapsto> [(''closed'', ''n/a''), (''09:00'', ''17:00'')]]"
      mondayNoon
      "[(''closed'', ''n/a''), (''09:00'', ''17:00'')]"
      "''closed''" "Fin 1020" "Fin 720" "''n/a''" "Fin 540" "Fin 480" "''9''"]
  by (simp add: hours_eval bothNaN_def mondayNoon_def)

text \<open>
  Claim C6 as stated fails for the day entry \<^verbatim>\<open>[["closed", "17:00"]]\<close> on a Monday at
  noon: the start yields \<^verbatim>\<open>NaN\<close> minutes, and \<open>isOpenNow\<close> returns true on account of
  this one interval.
\<close>

theorem nan_endpoint_counterexample:
  "toMinutes ''closed'' = NaN
   \<and> isOpenNow (Some [''mon'' \<mapsto> [(''closed'', ''17:00'')]]) mondayNoon"
  by (simp add: hours_eval mondayNoon_def)

section \<open>The filter-and-rank pipeline: size and order\<close>

lemma length_insertSorted: "length (insertSorted c x ys) = Suc (length ys)"
  by (induction ys) simp_all

lemma length_Array_sort: "length (Array_sort c xs) = length xs"
  by (induction xs) (simp_all add: Array_sort_def length_insertSorted)

lemma applyFilters_length:
  "length (applyFilters d now records f) \<le> 50
   \<and> length (applyFilters d now records f) \<le> length records"
proof
  show "length (applyFilters d now records f) \<le> 50"
    by (simp add: applyFilters_def MAX_RESULTS_def)
  have "length (applyFilters d now records f)
      \<le> length (filter (passesFilters now f) (map (fillDistance d f) records))"
    by (simp add: applyFilters_def length_Array_sort del: filter_map)
  also have "\<dots> \<le> length (map (fillDistance d f) records)"
    by (rule length_filter_le)
  finally show "length (applyFilters d now records f) \<le> length records"
    by simp
qed

lemma compare_rank:
  assumes "x \<noteq> NaN" "y \<noteq> NaN"
  shows "js_gt (let v = js_sub x y in if v = NaN then Fin 0 else v) (Fin 0)
       = (numberRank y < numberRank x)"
  using assms by (cases x; cases y) (simp_all add: js_gt_def js_sub_def)

lemma SortCompare_rank:
  assumes "sortable x" "sortable y"
  shows "js_gt (SortCompare compareDistance x y) (Fin 0) = (distanceRank y < distanceRank x)"
proof -
  have "(case meters x of None \<Rightarrow> PosInf | Some m \<Rightarrow> m) \<noteq> NaN"
       "(case meters y of None \<Rightarrow> PosInf | Some m \<Rightarrow> m) \<noteq> NaN"
    using assms by (auto simp: sortable_def split: option.splits)
  from compare_rank [OF this] show ?thesis
    by (simp add: SortCompare_def compareDistance_def distanceRank_def)
qed

lemma insertSorted_insort:
  assumes "sortable x" "\<forall>y \<in> set ys. sortable y"
  shows "insertSorted compareDistance x ys = insort_key distanceRank x ys"
  using assms(2)
proof (induction ys)
  case Nil
  then show ?case by simp
next
  case (Cons y ys)
  then show ?case
    using SortCompare_rank [OF assms(1), of y] by (auto simp: not_less)
qed

lemma Array_sort_sort_key:
  assumes "\<forall>x \<in> set xs. sortable x"
  shows "Array_sort compareDistance xs = sort_key distanceRank xs"
  using assms
proof (induction xs)
  case Nil
  then show ?case by (simp add: Array_sort_def)
next
  case (Cons x xs)
  then have "Array_sort compareDistance xs = sort_key distanceRank xs" by simp
  moreover have "\<forall>y \<in> set (sort_key distanceRank xs). sortable y"
    using Cons.prems by simp
  ultimately show ?case
    using Cons.prems insertSorted_insort [of x "sort_key distanceRank xs"]
    by (simp add: Array_sort_def sort_key_def)
qed


lemma finiteOrAbsent_sortable: "finiteOrAbsent (meters r) \<Longrightarrow> sortable r"
  by (auto simp: finiteOrAbsent_def sortable_def split: option.splits)

lemma rank_le_ordered:
  assumes "finiteOrAbsent (meters a)" "finiteOrAbsent (meters b)"
    and "distanceRank a \<le> distanceRank b"
  shows "distanceOrdered a b"
proof (cases "meters a")
  case None
  with assms show ?thesis
    by (cases "meters b"; cases "the (meters b)")
       (simp_all add: distanceOrdered_def distanceRank_def finiteOrAbsent_def)
next
  case (Some x)
  with assms show ?thesis
    by (cases "meters b"; cases x; cases "the (meters b)")
       (simp_all add: distanceOrdered_def distanceRank_def finiteOrAbsent_def)
qed

lemma sorted_rank_ascending:
  assumes "\<forall>r \<in> set out. finiteOrAbsent (meters r)" and "sorted (map distanceRank out)"
  shows "ascendingAbsentLast out"
proof -
  have "sorted_wrt (\<lambda>a b. distanceRank a \<le> distanceRank b) out"
    using assms(2) by (simp add: sorted_map)
  then show ?thesis
    unfolding ascendingAbsentLast_def
    by (rule sorted_wrt_mono_rel [rotated]) (use assms(1) rank_le_ordered in blast)
qed

lemma applyFilters_candidates:
  "applyFilters d now records f
     = take MAX_RESULTS (Array_sort compareDistance (candidates d now f records))"
  by (simp only: applyFilters_def candidates_def)

lemma candidates_finite:
  assumes "\<forall>r \<in> set records. finiteOrAbsent (meters (fillDistance d f r))"
  shows "\<forall>r \<in> set (candidates d now f records). finiteOrAbsent (meters r)"
  using assms by (auto simp: candidates_def)

lemma applyFilters_sort_key:
  assumes "\<forall>r \<in> set records. finiteOrAbsent (meters (fillDistance d f r))"
  shows "applyFilters d now records f
       = take MAX_RESULTS (sort_key distanceRank (candidates d now f records))"
proof -
  have "\<forall>r \<in> set (candidates d now f records). sortable r"
    using candidates_finite [OF assms] finiteOrAbsent_sortable by blast
  then show ?thesis
    by (simp only: applyFilters_candidates Array_sort_sort_key)
qed

lemma applyFilters_ascending:
  assumes "\<forall>r \<in> set records. finiteOrAbsent (meters (fillDistance d f r))"
  shows "ascendingAbsentLast (applyFilters d now records f)"
proof -
  let ?c = "candidates d now f records"
  have fin: "\<forall>r \<in> set (take MAX_RESULTS (sort_key distanceRank ?c)). finiteOrAbsent (meters r)"
    using candidates_finite [OF assms, of now] by (auto dest: in_set_takeD)
  have "sorted (map distanceRank (sort_key distanceRank ?c))"
    by (rule sorted_sort_key)
  then have "sorted (take MAX_RESULTS (map distanceRank (sort_key distanceRank ?c)))"
    by (rule sorted_wrt_take)
  then have "sorted (map distanceRank (take MAX_RESULTS (sort_key distanceRank ?c)))"
    by (simp only: take_map)
  with fin show ?thesis
    unfolding applyFilters_sort_key [OF assms] by (rule sorted_rank_ascending)
qed

lemma map_rank_sort_key: "map k (sort_key k xs) = sort (map k xs)"
proof -
  have "mset (map k (sort_key k xs)) = mset (map k xs)" by simp
  moreover have "sorted (map k (sort_key k xs))" by (rule sorted_sort_key)
  ultimately show ?thesis by (rule properties_for_sort [symmetric])
qed

lemma candidates_mset:
  assumes "mset ys = mset xs"
  shows "mset (candidates d now f ys) = mset (candidates d now f xs)"
  using assms by (simp add: candidates_def mset_filter del: filter_map)

lemma rank_sequence_permutation:
  assumes "mset ys = mset xs"
  shows "map distanceRank (sort_key distanceRank (candidates d now f ys))
       = map distanceRank (sort_key distanceRank (candidates d now f xs))"
proof -
  have "mset (map distanceRank (candidates d now f ys))
      = mset (map distanceRank (candidates d now f xs))"
    using candidates_mset [OF assms, of d now f]
    by (metis mset_map)
  then have "sort (map distanceRank (candidates d now f ys))
           = sort (map distanceRank (candidates d now f xs))"
    by (intro properties_for_sort) simp_all
  then show ?thesis by (simp only: map_rank_sort_key)
qed

lemma rankDistance_rank: "finiteOrAbsent (meters r) \<Longrightarrow> rankDistance (distanceRank r) = meters r"
  by (cases "meters r"; cases "the (meters r)")
     (simp_all add: distanceRank_def finiteOrAbsent_def)

lemma applyFilters_meters_rank:
  assumes "\<forall>r \<in> set records. finiteOrAbsent (meters (fillDistance d f r))"
  shows "map meters (applyFilters d now records f)
       = map rankDistance
           (take MAX_RESULTS (map distanceRank (sort_key distanceRank (candidates d now f records))))"
proof -
  let ?out = "take MAX_RESULTS (sort_key distanceRank (candidates d now f records))"
  have "\<forall>r \<in> set ?out. finiteOrAbsent (meters r)"
    using candidates_finite [OF assms, of now] by (auto dest: in_set_takeD)
  then have "map meters ?out = map (rankDistance \<circ> distanceRank) ?out"
    by (simp add: rankDistance_rank)
  then show ?thesis
    by (simp only: applyFilters_sort_key [OF assms] take_map map_map)
qed

lemma applyFilters_permutation:
  assumes "\<forall>r \<in> set records. finiteOrAbsent (meters (fillDistance d f r))"
    and "mset ys = mset records"
  shows "map meters (applyFilters d now ys f) = map meters (applyFilters d now records f)"
proof -
  have "set ys = set records" using assms(2) by (rule mset_eq_setD)
  with assms(1) have ys: "\<forall>r \<in> set ys. finiteOrAbsent (meters (fillDistance d f r))" by simp
  show ?thesis
    by (simp only: applyFilters_meters_rank [OF assms(1)] applyFilters_meters_rank [OF ys]
        rank_sequence_permutation [OF assms(2)])
qed


lemmas record_eval = sampleRecord_def sampleFilters_def sampleDistance_def mondayNoon_def
lemmas filter_eval = applyFilters_def MAX_RESULTS_def Array_sort_def SortCompare_def
  compareDistance_def passesFilters_def fillDistance_def attachDistance_def
  js_sub_def js_gt_def

text \<open>
  Claim C3, as amended. For every list of records and every criteria, \<open>applyFilters\<close>
  returns at most 50 entries and no more entries than its input has. When every
  distance, given or computed, is a finite number, its output is sorted ascending by
  distance with every record that has no distance after every record that has one, and
  so is the output for every permutation of the input, which moreover carries the same
  sequence of distances.
\<close>

theorem applyFilters_bounded_sorted:
  "length (applyFilters d now records f) \<le> 50
   \<and> length (applyFilters d now records f) \<le> length records
   \<and> ((\<forall>r \<in> set records. finiteOrAbsent (meters (fillDistance d f r))) \<longrightarrow>
        ascendingAbsentLast (applyFilters d now records f)
        \<and> (\<forall>ys. mset ys = mset records \<longrightarrow>
              ascendingAbsentLast (applyFilters d now ys f)
              \<and> map meters (applyFilters d now ys f) = map meters (applyFilters d now records f)))"
proof -
  have "ascendingAbsentLast (applyFilters d now ys f)
        \<and> map meters (applyFilters d now ys f) = map meters (applyFilters d now records f)"
    if h: "\<forall>r \<in> set records. finiteOrAbsent (meters (fillDistance d f r))"
      and p: "mset ys = mset records" for ys
  proof -
    have "set ys = set records" using p by (rule mset_eq_setD)
    with h have "\<forall>r \<in> set ys. finiteOrAbsent (meters (fillDistance d f r))" by simp
    then have "ascendingAbsentLast (applyFilters d now ys f)" by (rule applyFilters_ascending)
    with applyFilters_permutation [OF h p] show ?thesis by simp
  qed
  with applyFilters_length [of d now records f] applyFilters_ascending [of records d f now]
  show ?thesis by blast
qed


theorem applyFilters_bounded_sorted_witness:
  "finiteOrAbsent (meters (fillDistance sampleDistance sampleFilters (sampleRecord\<lparr>meters := Some (Fin 800)\<rparr>)))
   \<and> finiteOrAbsent (meters (fillDistance sampleDistance sampleFilters sampleRecord))
   \<and> finiteOrAbsent (meters (fillDistance sampleDistance sampleFilters (sampleRecord\<lparr>meters := Some (Fin 300)\<rparr>)))
   \<and> applyFilters sampleDistance mondayNoon
        [sampleRecord\<lparr>meters := Some (Fin 800)\<rparr>, sampleRecord,
         sampleRecord\<lparr>meters := Some (Fin 300)\<rparr>] sampleFilters
       = [sampleRecord\<lparr>meters := Some (Fin 300)\<rparr>, sampleRecord\<lparr>meters := Some (Fin 800)\<rparr>,
          sampleRecord]
   \<and> ascendingAbsentLast
        (applyFilters sampleDistance mondayNoon
           [sampleRecord\<lparr>meters := Some (Fin 800)\<rparr>, sampleRecord,
            sampleRecord\<lparr>meters := Some (Fin 300)\<rparr>] sampleFilters)
   \<and> mset [sampleRecord, sampleRecord\<lparr>meters := Some (Fin 300)\<rparr>,
            sampleRecord\<lparr>meters := Some (Fin 800)\<rparr>]
       = mset [sampleRecord\<lparr>meters := Some (Fin 800)\<rparr>, sampleRecord,
               sampleRecord\<lparr>meters := Some (Fin 300)\<rparr>]
   \<and> map meters
        (applyFilters sampleDistance mondayNoon
           [sampleRecord, sampleRecord\<lparr>meters := Some (Fin 300)\<rparr>,
            sampleRecord\<lparr>meters := Some (Fin 800)\<rparr>] sampleFilters)
       = [Some (Fin 300), Some (Fin 800), None]"
proof -
  let ?a = "sampleRecord\<lparr>meters := Some (Fin 800)\<rparr>"
  let ?b = "sampleRecord"
  let ?c = "sampleRecord\<lparr>meters := Some (Fin 300)\<rparr>"
  have h: "\<forall>r \<in> set [?a, ?b, ?c]. finiteOrAbsent (meters (fillDistance sampleDistance sampleFilters r))"
    by (simp add: finiteOrAbsent_def record_eval filter_eval)
  have p: "mset [?b, ?c, ?a] = mset [?a, ?b, ?c]" by (simp add: add.commute)
  have out: "applyFilters sampleDistance mondayNoon [?a, ?b, ?c] sampleFilters = [?c, ?a, ?b]"
    by (simp add: record_eval filter_eval)
  from applyFilters_bounded_sorted [of sampleDistance mondayNoon "[?a, ?b, ?c]" sampleFilters] h
  have s: "ascendingAbsentLast (applyFilters sampleDistance mondayNoon [?a, ?b, ?c] sampleFilters)"
    and q: "\<forall>ys. mset ys = mset [?a, ?b, ?c] \<longrightarrow>
              map meters (applyFilters sampleDistance mondayNoon ys sampleFilters)
                = map meters (applyFilters sampleDistance mondayNoon [?a, ?b, ?c] sampleFilters)"
    by blast+
  from q p have "map meters (applyFilters sampleDistance mondayNoon [?b, ?c, ?a] sampleFilters)
      = map meters (applyFilters sampleDistance mondayNoon [?a, ?b, ?c] sampleFilters)"
    by blast
  then have m: "map meters (applyFilters sampleDistance mondayNoon [?b, ?c, ?a] sampleFilters)
      = [Some (Fin 300), Some (Fin 800), None]"
    by (simp add: out) (simp add: sampleRecord_def)
  from h s p m out show ?thesis by simp
qed

text \<open>
  Claim C3 as stated fails where a record carries the distance \<^verbatim>\<open>Infinity\<close>, which the
  radius rule lets through: the comparator ties it with a record that has no distance,
  and the stable sort keeps the record without a distance in front of it.
\<close>

theorem applyFilters_sorted_counterexample:
  "applyFilters sampleDistance mondayNoon
     [sampleRecord, sampleRecord\<lparr>id' := ''loc-2'', meters := Some PosInf\<rparr>] sampleFilters
     = [sampleRecord, sampleRecord\<lparr>id' := ''loc-2'', meters := Some PosInf\<rparr>]
   \<and> meters sampleRecord = None
   \<and> \<not> ascendingAbsentLast
         (applyFilters sampleDistance mondayNoon
            [sampleRecord, sampleRecord\<lparr>id' := ''loc-2'', meters := Some PosInf\<rparr>] sampleFilters)"
  by (simp add: record_eval filter_eval ascendingAbsentLast_def distanceOrdered_def)









section \<open>The request handler: client errors and fallback\<close>

lemmas env_eval = sampleEnv_def sampleRequest_def sampleParseFloat_def sampleJSONParse_def
  sampleGeometry_def sampleGeometryText_def sampleRow_def

lemma parseNumber_None:
  "(parseNumber pf v = None) = (v = None \<or> (\<exists>s. v = Some s \<and> pf s = NaN))"
  by (cases v; cases "pf (the v)") (simp_all add: parseNumber_def)

text \<open>
  Claim C9. When the \<^verbatim>\<open>lat\<close> or the \<^verbatim>\<open>lng\<close> query parameter is missing, or
  \<^verbatim>\<open>parseFloat\<close> makes \<^verbatim>\<open>NaN\<close> of it, the handler answers with status 400 and a payload
  that carries the error string, and it does nothing else: it does not ask for the store
  client, makes no remote call and does not read the bundled dataset.
\<close>

theorem GET_missing_coordinates:
  assumes "searchParams ''lat'' = None
         \<or> (\<exists>v. searchParams ''lat'' = Some v \<and> env_parseFloat env v = NaN)
         \<or> searchParams ''lng'' = None
         \<or> (\<exists>v. searchParams ''lng'' = Some v \<and> env_parseFloat env v = NaN)"
  shows "GET env searchParams = (\<lparr>status = 400, payload = ErrorPayload requiredMessage\<rparr>, [])
       \<and> 400 \<le> status (fst (GET env searchParams)) \<and> status (fst (GET env searchParams)) < 500
       \<and> snd (GET env searchParams) = []"
proof -
  have "parseNumber (env_parseFloat env) (searchParams ''lat'') = None
      \<or> parseNumber (env_parseFloat env) (searchParams ''lng'') = None"
    using assms by (auto simp: parseNumber_None)
  then have "GET env searchParams = (\<lparr>status = 400, payload = ErrorPayload requiredMessage\<rparr>, [])"
    by (auto simp: GET_def split: option.splits)
  then show ?thesis by simp
qed


theorem GET_missing_coordinates_witness:
  "[''lng'' \<mapsto> ''-79.3832''] ''lat'' = None
   \<and> GET (sampleEnv\<lparr>getSupabaseClient := Some (\<lambda>args. RpcResolves (Some [sampleRow]) None)\<rparr>)
        [''lng'' \<mapsto> ''-79.3832'']
       = (\<lparr>status = 400, payload = ErrorPayload requiredMessage\<rparr>, [])
   \<and> (sampleRequest(''lng'' \<mapsto> ''north'')) ''lng'' = Some ''north''
   \<and> env_parseFloat sampleEnv ''north'' = NaN
   \<and> GET sampleEnv (sampleRequest(''lng'' \<mapsto> ''north''))
       = (\<lparr>status = 400, payload = ErrorPayload requiredMessage\<rparr>, [])"
proof -
  have a: "[''lng'' \<mapsto> ''-79.3832''] ''lat'' = None" by simp
  have b: "(sampleRequest(''lng'' \<mapsto> ''north'')) ''lng'' = Some ''north''" by simp
  have c: "env_parseFloat sampleEnv ''north'' = NaN" by (simp add: env_eval)
  from a have 1: "GET (sampleEnv\<lparr>getSupabaseClient := Some (\<lambda>args. RpcResolves (Some [sampleRow]) None)\<rparr>)
        [''lng'' \<mapsto> ''-79.3832'']
       = (\<lparr>status = 400, payload = ErrorPayload requiredMessage\<rparr>, [])"
    using GET_missing_coordinates [of "[''lng'' \<mapsto> ''-79.3832'']"
        "sampleEnv\<lparr>getSupabaseClient := Some (\<lambda>args. RpcResolves (Some [sampleRow]) None)\<rparr>"]
    by blast
  from b c have 2: "GET sampleEnv (sampleRequest(''lng'' \<mapsto> ''north''))
       = (\<lparr>status = 400, payload = ErrorPayload requiredMessage\<rparr>, [])"
    using GET_missing_coordinates [of "sampleRequest(''lng'' \<mapsto> ''north'')" sampleEnv]
    by blast
  from a b c 1 2 show ?thesis by simp
qed



















section \<open>The coordinate resolver\<close>

lemma extract_explicit:
  "isNumber (row_latitude row) \<Longrightarrow> isNumber (row_longitude row) \<Longrightarrow>
   extractCoordinates P row = (row_latitude row, row_longitude row)"
  by (simp add: extractCoordinates_def)

lemma extract_alias:
  "\<not> (isNumber (row_latitude row) \<and> isNumber (row_longitude row)) \<Longrightarrow>
   isNumber (row_lat row) \<Longrightarrow> isNumber (row_lng row) \<Longrightarrow>
   extractCoordinates P row = (row_lat row, row_lng row)"
  by (auto simp: extractCoordinates_def)

lemma extract_geom_object:
  assumes "\<not> (isNumber (row_latitude row) \<and> isNumber (row_longitude row))"
    and "\<not> (isNumber (row_lat row) \<and> isNumber (row_lng row))"
    and "row_geom row = JObj kvs"
    and "map_of kvs ''coordinates'' = Some (JArr (lng # lat # rest))"
  shows "extractCoordinates P row = (lat, lng)"
  using assms
  by (auto simp: extractCoordinates_def geometryObjectPair_def geometryTextPair_def)

lemma extract_geom_text:
  assumes "\<not> (isNumber (row_latitude row) \<and> isNumber (row_longitude row))"
    and "\<not> (isNumber (row_lat row) \<and> isNumber (row_lng row))"
    and "row_geom row = JStr t" and "t \<noteq> []"
    and "P t = Some (JObj kvs)"
    and "map_of kvs ''coordinates'' = Some (JArr (lng # lat # rest))"
  shows "extractCoordinates P row = (lat, lng)"
  using assms
  by (auto simp: extractCoordinates_def geometryObjectPair_def geometryTextPair_def)

text \<open>
  Claim C8. For every pair of numbers \<open>(phi, lambda)\<close>: a row that supplies the point in
  its \<^verbatim>\<open>lat\<close> and \<^verbatim>\<open>lng\<close> fields, a row that supplies it as a geometry object whose
  \<^verbatim>\<open>coordinates\<close> are \<open>[lambda, phi]\<close>, and a row that supplies a text which
  \<^verbatim>\<open>JSON.parse\<close> reads as that same object, all resolve to the pair \<open>(phi, lambda)\<close>,
  latitude first. Each row supplies the point in its own shape only: no shape of higher
  priority holds a pair of numbers.
\<close>

theorem extractCoordinates_same_point:
  assumes "\<not> (isNumber (row_latitude r1) \<and> isNumber (row_longitude r1))"
    and "row_lat r1 = JNum phi" and "row_lng r1 = JNum lambda"
    and "\<not> (isNumber (row_latitude r2) \<and> isNumber (row_longitude r2))"
    and "\<not> (isNumber (row_lat r2) \<and> isNumber (row_lng r2))"
    and "row_geom r2 = JObj kvs"
    and "map_of kvs ''coordinates'' = Some (JArr [JNum lambda, JNum phi])"
    and "\<not> (isNumber (row_latitude r3) \<and> isNumber (row_longitude r3))"
    and "\<not> (isNumber (row_lat r3) \<and> isNumber (row_lng r3))"
    and "row_geom r3 = JStr t" and "t \<noteq> []" and "P t = Some (JObj kvs)"
  shows "extractCoordinates P r1 = (JNum phi, JNum lambda)
       \<and> extractCoordinates P r2 = (JNum phi, JNum lambda)
       \<and> extractCoordinates P r3 = (JNum phi, JNum lambda)"
proof -
  have 1: "extractCoordinates P r1 = (JNum phi, JNum lambda)"
    using assms(1-3) extract_alias [of r1 P] by simp
  have 2: "extractCoordinates P r2 = (JNum phi, JNum lambda)"
    using assms(4-7) by (rule extract_geom_object)
  have 3: "extractCoordinates P r3 = (JNum phi, JNum lambda)"
    using assms(8-12) assms(7) by (rule extract_geom_text)
  from 1 2 3 show ?thesis by simp
qed


theorem extractCoordinates_same_point_witness:
  "extractCoordinates sampleJSONParse
     (sampleRow\<lparr>row_lat := JNum (Fin 43.6532), row_lng := JNum (Fin (- 79.3832))\<rparr>)
     = (JNum (Fin 43.6532), JNum (Fin (- 79.3832)))
   \<and> extractCoordinates sampleJSONParse (sampleRow\<lparr>row_geom := sampleGeometry\<rparr>)
     = (JNum (Fin 43.6532), JNum (Fin (- 79.3832)))
   \<and> extractCoordinates sampleJSONParse (sampleRow\<lparr>row_geom := JStr sampleGeometryText\<rparr>)
     = (JNum (Fin 43.6532), JNum (Fin (- 79.3832)))
   \<and> sampleJSONParse sampleGeometryText = Some sampleGeometry
   \<and> sampleGeometry
     = JObj [(''type'', JStr ''Point''),
             (''coordinates'', JArr [JNum (Fin (- 79.3832)), JNum (Fin 43.6532)])]"
proof -
  let ?kvs = "[(''type'', JStr ''Point''),
               (''coordinates'', JArr [JNum (Fin (- 79.3832)), JNum (Fin 43.6532)])]"
  let ?r1 = "sampleRow\<lparr>row_lat := JNum (Fin 43.6532), row_lng := JNum (Fin (- 79.3832))\<rparr>"
  let ?r2 = "sampleRow\<lparr>row_geom := sampleGeometry\<rparr>"
  let ?r3 = "sampleRow\<lparr>row_geom := JStr sampleGeometryText\<rparr>"
  have g: "sampleGeometry = JObj ?kvs" by (simp add: sampleGeometry_def)
  have p: "sampleJSONParse sampleGeometryText = Some (JObj ?kvs)"
    by (simp add: sampleJSONParse_def g)
  have t: "sampleGeometryText \<noteq> []" by (simp add: sampleGeometryText_def)
  have m: "map_of ?kvs ''coordinates'' = Some (JArr [JNum (Fin (- 79.3832)), JNum (Fin 43.6532)])"
    by simp
  have "extractCoordinates sampleJSONParse ?r1 = (JNum (Fin 43.6532), JNum (Fin (- 79.3832)))
       \<and> extractCoordinates sampleJSONParse ?r2 = (JNum (Fin 43.6532), JNum (Fin (- 79.3832)))
       \<and> extractCoordinates sampleJSONParse ?r3 = (JNum (Fin 43.6532), JNum (Fin (- 79.3832)))"
  proof (rule extractCoordinates_same_point [where kvs = ?kvs and t = sampleGeometryText])
    show "\<not> (isNumber (row_latitude ?r1) \<and> isNumber (row_longitude ?r1))"
      by (simp add: sampleRow_def)
    show "row_lat ?r1 = JNum (Fin 43.6532)" by simp
    show "row_lng ?r1 = JNum (Fin (- 79.3832))" by simp
    show "\<not> (isNumber (row_latitude ?r2) \<and> isNumber (row_longitude ?r2))"
      by (simp add: sampleRow_def)
    show "\<not> (isNumber (row_lat ?r2) \<and> isNumber (row_lng ?r2))"
      by (simp add: sampleRow_def)
    show "row_geom ?r2 = JObj ?kvs" by (simp add: g)
    show "map_of ?kvs ''coordinates'' = Some (JArr [JNum (Fin (- 79.3832)), JNum (Fin 43.6532)])"
      by (rule m)
    show "\<not> (isNumber (row_latitude ?r3) \<and> isNumber (row_longitude ?r3))"
      by (simp add: sampleRow_def)
    show "\<not> (isNumber (row_lat ?r3) \<and> isNumber (row_lng ?r3))"
      by (simp add: sampleRow_def)
    show "row_geom ?r3 = JStr sampleGeometryText" by simp
    show "sampleGeometryText \<noteq> []" by (rule t)
    show "sampleJSONParse sampleGeometryText = Some (JObj ?kvs)" by (rule p)
  qed
  with p g show ?thesis by simp
qed

lemma coordinatesPair_numeric:
  assumes "numericCoordinates v" and "getProperty v ''coordinates'' = Some c"
    and "coordinatesPair c = Some pair"
  shows "isNumber (fst pair) \<and> isNumber (snd pair)"
proof (cases v)
  case (JObj kvs)
  with assms(2) have c: "c = (case map_of kvs ''coordinates'' of None \<Rightarrow> JUndefined | Some x \<Rightarrow> x)"
    by simp
  from assms(3) obtain lng lat rest where s: "c = JArr (lng # lat # rest)" "pair = (lat, lng)"
    by (cases c rule: coordinatesPair.cases) auto
  with c have "map_of kvs ''coordinates'' = Some (JArr (lng # lat # rest))"
    by (cases "map_of kvs ''coordinates''") auto
  with assms(1) JObj s show ?thesis by (simp add: numericCoordinates_def)
next
  case JUndefined with assms(2) show ?thesis by simp
next
  case JNull with assms(2) show ?thesis by simp
next
  case (JBool b) with assms(2,3) show ?thesis by auto
next
  case (JNum n) with assms(2,3) show ?thesis by auto
next
  case (JStr s) with assms(2,3) show ?thesis by auto
next
  case (JArr xs) with assms(2,3) show ?thesis by auto
qed

lemma isNumber_not_nullish: "isNumber v \<Longrightarrow> \<not> isNullish v"
  by (cases v) simp_all

lemma bothOrNeither_numbers: "isNumber a \<Longrightarrow> isNumber b \<Longrightarrow> bothOrNeither (a, b)"
  by (simp add: bothOrNeither_def isNumber_not_nullish)


lemma geometryObjectPair_numeric:
  assumes "numericCoordinates g" and "geometryObjectPair g = Some pair"
  shows "isNumber (fst pair) \<and> isNumber (snd pair)"
proof -
  from assms(2) obtain c where "getProperty g ''coordinates'' = Some c" "coordinatesPair c = Some pair"
    by (auto simp: geometryObjectPair_def split: if_splits option.splits)
  with assms(1) show ?thesis by (rule coordinatesPair_numeric)
qed

lemma geometryTextPair_numeric:
  assumes "geometryAsCast P g" and "geometryTextPair P g = Some pair"
  shows "isNumber (fst pair) \<and> isNumber (snd pair)"
proof -
  from assms(2) obtain t v c where
    "g = JStr t" "P t = Some v" "getProperty v ''coordinates'' = Some c"
    "coordinatesPair c = Some pair"
    by (auto simp: geometryTextPair_def split: jsval.splits if_splits option.splits)
  moreover from this assms(1) have "numericCoordinates v"
    by (simp add: geometryAsCast_def)
  ultimately show ?thesis using coordinatesPair_numeric by blast
qed

lemma extractCoordinates_numbers_or_null:
  assumes "geometryAsCast P (row_geom row)"
  shows "(isNumber (fst (extractCoordinates P row)) \<and> isNumber (snd (extractCoordinates P row)))
       \<or> extractCoordinates P row = (JNull, JNull)"
proof -
  consider (fields) "isNumber (row_latitude row) \<and> isNumber (row_longitude row)"
    | (aliases) "\<not> (isNumber (row_latitude row) \<and> isNumber (row_longitude row))"
        "isNumber (row_lat row) \<and> isNumber (row_lng row)"
    | (gobject) pair where "\<not> (isNumber (row_latitude row) \<and> isNumber (row_longitude row))"
        "\<not> (isNumber (row_lat row) \<and> isNumber (row_lng row))"
        "geometryObjectPair (row_geom row) = Some pair"
    | (gtext) pair where "\<not> (isNumber (row_latitude row) \<and> isNumber (row_longitude row))"
        "\<not> (isNumber (row_lat row) \<and> isNumber (row_lng row))"
        "geometryObjectPair (row_geom row) = None"
        "geometryTextPair P (row_geom row) = Some pair"
    | (nothing) "\<not> (isNumber (row_latitude row) \<and> isNumber (row_longitude row))"
        "\<not> (isNumber (row_lat row) \<and> isNumber (row_lng row))"
        "geometryObjectPair (row_geom row) = None"
        "geometryTextPair P (row_geom row) = None"
    by (cases "geometryObjectPair (row_geom row)"; cases "geometryTextPair P (row_geom row)") auto
  then show ?thesis
  proof cases
    case fields
    then show ?thesis by (simp add: extractCoordinates_def)
  next
    case aliases
    then have "extractCoordinates P row = (row_lat row, row_lng row)"
      by (auto simp: extractCoordinates_def)
    with aliases show ?thesis by simp
  next
    case gobject
    then have e: "extractCoordinates P row = pair" by (auto simp: extractCoordinates_def)
    from assms have "numericCoordinates (row_geom row)" by (simp add: geometryAsCast_def)
    from geometryObjectPair_numeric [OF this gobject(3)] show ?thesis
      unfolding e by simp
  next
    case gtext
    then have e: "extractCoordinates P row = pair" by (auto simp: extractCoordinates_def)
    from geometryTextPair_numeric [OF assms gtext(4)] show ?thesis
      unfolding e by simp
  next
    case nothing
    then have "extractCoordinates P row = (JNull, JNull)" by (auto simp: extractCoordinates_def)
    then show ?thesis by simp
  qed
qed

lemma extractCoordinates_whole:
  assumes "geometryAsCast P (row_geom row)"
  shows "bothOrNeither (extractCoordinates P row)"
  using extractCoordinates_numbers_or_null [OF assms]
  by (auto simp: bothOrNeither_def isNumber_not_nullish)

lemma extractCoordinates_latitude_alone:
  assumes "\<not> isNumber (row_longitude row)"
  shows "extractCoordinates P (row\<lparr>row_latitude := v\<rparr>) = extractCoordinates P row"
  using assms by (simp add: extractCoordinates_def cong: option.case_cong)

lemma extractCoordinates_nothing:
  assumes "\<not> (isNumber (row_latitude row) \<and> isNumber (row_longitude row))"
    and "\<not> (isNumber (row_lat row) \<and> isNumber (row_lng row))"
    and "isNullish (row_geom row)"
  shows "extractCoordinates P row = (JNull, JNull)"
proof -
  from assms(3) have "geometryObjectPair (row_geom row) = None"
    "geometryTextPair P (row_geom row) = None"
    by (cases "row_geom row"; simp add: geometryObjectPair_def geometryTextPair_def)+
  with assms(1,2) show ?thesis by (auto simp: extractCoordinates_def)
qed

text \<open>
  Claim C10, as amended. For every row whose geometry is as the handler's cast takes it
  to be (the first two entries of a \<^verbatim>\<open>coordinates\<close> array are numbers),
  \<^verbatim>\<open>extractCoordinates\<close> returns both coordinates present or both absent, never exactly
  one: two numbers, or two \<^verbatim>\<open>null\<close>s. A row with a numeric latitude field but a longitude
  field that is absent or not a number yields no partial pair: its latitude field has
  no influence on the result, which comes from the later shapes (alias fields, geometry
  object, geometry text), and is both-absent when the row has none of them.
\<close>

theorem extractCoordinates_whole_pair:
  "(geometryAsCast P (row_geom row) \<longrightarrow>
      bothOrNeither (extractCoordinates P row)
      \<and> ((isNumber (fst (extractCoordinates P row)) \<and> isNumber (snd (extractCoordinates P row)))
          \<or> extractCoordinates P row = (JNull, JNull)))
   \<and> (\<not> isNumber (row_longitude r2) \<longrightarrow>
        extractCoordinates P (r2\<lparr>row_latitude := v\<rparr>) = extractCoordinates P r2)
   \<and> (\<not> isNumber (row_longitude r3)
        \<and> \<not> (isNumber (row_lat r3) \<and> isNumber (row_lng r3))
        \<and> isNullish (row_geom r3) \<longrightarrow>
        extractCoordinates P r3 = (JNull, JNull))"
  using extractCoordinates_whole [of P row] extractCoordinates_numbers_or_null [of P row]
    extractCoordinates_latitude_alone [of r2 P v] extractCoordinates_nothing [of r3 P]
  by blast

text \<open>
  Claim C10 as stated fails for a row whose geometry object has the coordinates
  \<^verbatim>\<open>[1, null]\<close>: the entries are copied unchecked, and the result has a longitude and no
  latitude.
\<close>

theorem extractCoordinates_partial_counterexample:
  "extractCoordinates sampleJSONParse
     (sampleRow\<lparr>row_geom := JObj [(''coordinates'', JArr [JNum (Fin 1), JNull])]\<rparr>)
     = (JNull, JNum (Fin 1))
   \<and> \<not> bothOrNeither
         (extractCoordinates sampleJSONParse
            (sampleRow\<lparr>row_geom := JObj [(''coordinates'', JArr [JNum (Fin 1), JNull])]\<rparr>))"
  by (simp add: extractCoordinates_def geometryObjectPair_def sampleRow_def bothOrNeither_def)

theorem extractCoordinates_whole_pair_witness:
  "geometryAsCast sampleJSONParse (row_geom (sampleRow\<lparr>row_geom := JStr sampleGeometryText\<rparr>))
   \<and> bothOrNeither (extractCoordinates sampleJSONParse (sampleRow\<lparr>row_geom := JStr sampleGeometryText\<rparr>))
   \<and> \<not> isNumber (row_longitude (sampleRow\<lparr>row_geom := sampleGeometry\<rparr>))
   \<and> extractCoordinates sampleJSONParse
        (sampleRow\<lparr>row_geom := sampleGeometry, row_latitude := JNum (Fin 43.6532)\<rparr>)
       = (JNum (Fin 43.6532), JNum (Fin (- 79.3832)))
   \<and> \<not> isNumber (row_longitude (sampleRow\<lparr>row_latitude := JNum (Fin 43.6532)\<rparr>))
   \<and> \<not> (isNumber (row_lat (sampleRow\<lparr>row_latitude := JNum (Fin 43.6532)\<rparr>))
          \<and> isNumber (row_lng (sampleRow\<lparr>row_latitude := JNum (Fin 43.6532)\<rparr>)))
   \<and> isNullish (row_geom (sampleRow\<lparr>row_latitude := JNum (Fin 43.6532)\<rparr>))
   \<and> extractCoordinates sampleJSONParse (sampleRow\<lparr>row_latitude := JNum (Fin 43.6532)\<rparr>)
       = (JNull, JNull)"
proof -
  have g: "geometryAsCast sampleJSONParse
             (row_geom (sampleRow\<lparr>row_geom := JStr sampleGeometryText\<rparr>))"
    by (simp add: geometryAsCast_def numericCoordinates_def sampleJSONParse_def sampleGeometry_def)
  have l: "\<not> isNumber (row_longitude (sampleRow\<lparr>row_geom := sampleGeometry\<rparr>))"
    by (simp add: sampleRow_def)
  have n: "\<not> isNumber (row_longitude (sampleRow\<lparr>row_latitude := JNum (Fin 43.6532)\<rparr>))"
     "\<not> (isNumber (row_lat (sampleRow\<lparr>row_latitude := JNum (Fin 43.6532)\<rparr>))
          \<and> isNumber (row_lng (sampleRow\<lparr>row_latitude := JNum (Fin 43.6532)\<rparr>)))"
     "isNullish (row_geom (sampleRow\<lparr>row_latitude := JNum (Fin 43.6532)\<rparr>))"
    by (simp_all add: sampleRow_def)
  have e: "extractCoordinates sampleJSONParse (sampleRow\<lparr>row_geom := sampleGeometry\<rparr>)
         = (JNum (Fin 43.6532), JNum (Fin (- 79.3832)))"
    by (simp add: extractCoordinates_def geometryObjectPair_def sampleRow_def sampleGeometry_def)
  from extractCoordinates_whole_pair [of sampleJSONParse
      "sampleRow\<lparr>row_geom := JStr sampleGeometryText\<rparr>"
      "sampleRow\<lparr>row_geom := sampleGeometry\<rparr>" "JNum (Fin 43.6532)"
      "sampleRow\<lparr>row_latitude := JNum (Fin 43.6532)\<rparr>"] g l n e
  show ?thesis by simp
qed


end
